theory Spec2Isabelle
  imports Complex_Main
begin

section \<open>Emission calculator of the MRV carbon dashboard (app.py)\<close>

text \<open>
  Numbers. The quantities of app.py are Python floats, apart from the livestock
  headcount, which is a Python int. A float is modelled by the real number it stands
  for and float arithmetic by exact arithmetic on \<^typ>\<open>real\<close>: the rounding of
  binary64 results, overflow to infinity and NaN are outside this model, so every
  equation below is an equation between exact values. A Python int that meets a float
  in a product or a quotient is converted first; here that is \<^const>\<open>of_int\<close>.

  Strings. A Python \<open>str\<close> is modelled by \<^typ>\<open>string\<close>. \<open>str.lower\<close> is
  modelled on the letters A to Z only. The one place that calls it compares the
  result with \<open>"diesel"\<close>, and no character outside A to Z is lowered by Python to
  one of the letters d, i, e, s, l on its own, so the comparison is decided by these
  26 letters.
\<close>

subsection \<open>Constants (emission factors)\<close>

definition FERT_EF_N2O_N :: real where
  "FERT_EF_N2O_N = 0.01"

text \<open>\<open>44 / 28\<close> is Python's true division of two ints.\<close>

definition N2O_TO_N2O_RATIO :: real where
  "N2O_TO_N2O_RATIO = of_int 44 / of_int 28"

definition N2O_GWP :: int where
  "N2O_GWP = 265"

definition ELECTRICITY_EF_KG_PER_KWH :: real where
  "ELECTRICITY_EF_KG_PER_KWH = 0.716"

definition DIESEL_EF_KG_PER_L :: real where
  "DIESEL_EF_KG_PER_L = 2.68"

definition PETROL_EF_KG_PER_L :: real where
  "PETROL_EF_KG_PER_L = 2.27"

definition RICE_AREA_EF_KG_PER_HA :: int where
  "RICE_AREA_EF_KG_PER_HA = 7870"

definition RICE_YIELD_EF_KG_PER_KG :: real where
  "RICE_YIELD_EF_KG_PER_KG = 0.9"

definition STEEL_EF_T_PER_TONNE :: real where
  "STEEL_EF_T_PER_TONNE = 2.55"

definition LIVESTOCK_EF_KG_PER_HEAD_PER_YEAR :: real where
  "LIVESTOCK_EF_KG_PER_HEAD_PER_YEAR = 912.5"

subsection \<open>Strings: \<open>str.lower\<close>\<close>

definition char_lower :: "char \<Rightarrow> char" where
  "char_lower c =
     (case map_of (zip ''ABCDEFGHIJKLMNOPQRSTUVWXYZ'' ''abcdefghijklmnopqrstuvwxyz'') c of
        Some l \<Rightarrow> l
      | None \<Rightarrow> c)"

definition lower :: "string \<Rightarrow> string" where
  "lower s = map char_lower s"

subsection \<open>Core calculation functions\<close>

definition compute_fertilizer_emissions :: "real \<Rightarrow> real" where
  "compute_fertilizer_emissions n_kg =
     (let n2o_n_emissions = n_kg * FERT_EF_N2O_N;
          n2o_emissions = n2o_n_emissions * N2O_TO_N2O_RATIO;
          co2e_emissions = n2o_emissions * of_int N2O_GWP
      in co2e_emissions)"


definition compute_electricity_emissions :: "real \<Rightarrow> real" where
  "compute_electricity_emissions kwh = kwh * ELECTRICITY_EF_KG_PER_KWH"

definition compute_fuel_emissions :: "real \<Rightarrow> string \<Rightarrow> real" where
  "compute_fuel_emissions litres fuel_type =
     (let factor = (if lower fuel_type = ''diesel'' then DIESEL_EF_KG_PER_L
                    else PETROL_EF_KG_PER_L)
      in litres * factor)"

definition compute_rice_emissions :: "real \<Rightarrow> real \<Rightarrow> real" where
  "compute_rice_emissions area_ha yield_tonnes =
     (let area_emissions = area_ha * of_int RICE_AREA_EF_KG_PER_HA;
          yield_emissions = yield_tonnes * of_int 1000 * RICE_YIELD_EF_KG_PER_KG
      in (area_emissions + yield_emissions) / of_int 2)"

definition compute_steel_emissions :: "real \<Rightarrow> real" where
  "compute_steel_emissions tonnes =
     (let emissions_tonnes = tonnes * STEEL_EF_T_PER_TONNE
      in emissions_tonnes * of_int 1000)"

definition compute_livestock_emissions :: "int \<Rightarrow> real" where
  "compute_livestock_emissions headcount =
     of_int headcount * LIVESTOCK_EF_KG_PER_HEAD_PER_YEAR"

definition kg_to_tonnes :: "real \<Rightarrow> real" where
  "kg_to_tonnes kg = kg / 1000.0"

subsection \<open>The calculations of \<open>main\<close> after the form is submitted\<close>

text \<open>
  The form holds the fields of the selected sector: the sidebar selects one of the two
  sectors and \<open>main\<close> reads the number inputs of that sector only. The baseline is
  read for both. Every number input of the form has \<open>min_value\<close> 0.
\<close>

record agri_inputs =
  area_ha :: real
  crop_type :: string
  rice_yield_t :: real
  livestock_count :: int
  fert_n_kg :: real
  diesel_l :: real
  petrol_l :: real
  elec_kwh :: real

record alloy_inputs =
  steel_prod_t :: real
  elec_kwh_alloy :: real
  diesel_l_alloy :: real
  petrol_l_alloy :: real

datatype form = Agriculture agri_inputs | Alloy alloy_inputs

text \<open>
  \<open>Series.round(2)\<close> of the emissions column: the value is scaled by 100, rounded to
  the nearest integer with ties to the even one, and scaled back.
\<close>

definition round_half_even :: "real \<Rightarrow> int" where
  "round_half_even x =
     (let f = \<lfloor>x\<rfloor>; d = x - of_int f
      in if d < 1 / 2 then f
         else if 1 / 2 < d then f + 1
         else if even f then f else f + 1)"

definition round2 :: "real \<Rightarrow> real" where
  "round2 x = of_int (round_half_even (x * 100)) / 100"

text \<open>
  What \<open>main\<close> computes and hands to the PDF builder. A row of the breakdown table is
  modelled by its columns \<open>Source\<close> and \<open>Emissions (kg CO2e/year)\<close>; the other
  columns are display strings that no calculation reads.
\<close>

record report =
  sources :: "string list"
  em_values_kg :: "real list"
  total_em_kg :: real
  total_em_t :: real
  potential_credits_t :: real
  df_breakdown :: "(string \<times> real) list"

definition main_agriculture :: "real \<Rightarrow> agri_inputs \<Rightarrow> report" where
  "main_agriculture baseline_tco2e inp =
     (let fert_em = compute_fertilizer_emissions (fert_n_kg inp);
          diesel_em = compute_fuel_emissions (diesel_l inp) ''Diesel'';
          petrol_em = compute_fuel_emissions (petrol_l inp) ''Petrol'';
          elec_em = compute_electricity_emissions (elec_kwh inp);
          rice_em = (if crop_type inp = ''Rice''
                     then compute_rice_emissions (area_ha inp) (rice_yield_t inp)
                     else 0.0);
          livestock_em = compute_livestock_emissions (livestock_count inp);
          srcs = [''Synthetic nitrogen fertilizer'', ''Diesel'', ''Petrol'',
                  ''Electricity (grid)'', ''Rice paddies'', ''Livestock (enteric methane)''];
          vals = [fert_em, diesel_em, petrol_em, elec_em, rice_em, livestock_em];
          total_kg = sum_list vals;
          total_t = kg_to_tonnes total_kg;
          credits = (if baseline_tco2e > 0 then max 0.0 (baseline_tco2e - total_t) else 0.0);
          data_rows = [(''Synthetic nitrogen fertilizer'', fert_em),
                       (''Diesel'', diesel_em),
                       (''Petrol'', petrol_em),
                       (''Electricity (grid)'', elec_em),
                       (''Rice paddies'', rice_em),
                       (''Livestock (enteric methane)'', livestock_em)]
      in \<lparr>sources = srcs, em_values_kg = vals, total_em_kg = total_kg,
          total_em_t = total_t, potential_credits_t = credits,
          df_breakdown = map (\<lambda>(s, e). (s, round2 e)) data_rows\<rparr>)"

definition main_alloy :: "real \<Rightarrow> alloy_inputs \<Rightarrow> report" where
  "main_alloy baseline_tco2e inp =
     (let steel_em_kg = compute_steel_emissions (steel_prod_t inp);
          elec_em_kg = compute_electricity_emissions (elec_kwh_alloy inp);
          diesel_em_kg = compute_fuel_emissions (diesel_l_alloy inp) ''Diesel'';
          petrol_em_kg = compute_fuel_emissions (petrol_l_alloy inp) ''Petrol'';
          srcs = [''Steel production'', ''Electricity (grid)'', ''Diesel'', ''Petrol''];
          vals = [steel_em_kg, elec_em_kg, diesel_em_kg, petrol_em_kg];
          total_kg = sum_list vals;
          total_t = kg_to_tonnes total_kg;
          credits = (if baseline_tco2e > 0 then max 0.0 (baseline_tco2e - total_t) else 0.0);
          data_rows = [(''Steel production'', steel_em_kg),
                       (''Electricity (grid)'', elec_em_kg),
                       (''Diesel'', diesel_em_kg),
                       (''Petrol'', petrol_em_kg)]
      in \<lparr>sources = srcs, em_values_kg = vals, total_em_kg = total_kg,
          total_em_t = total_t, potential_credits_t = credits,
          df_breakdown = map (\<lambda>(s, e). (s, round2 e)) data_rows\<rparr>)"

fun main_calculations :: "real \<Rightarrow> form \<Rightarrow> report" where
  "main_calculations baseline_tco2e (Agriculture inp) = main_agriculture baseline_tco2e inp"
| "main_calculations baseline_tco2e (Alloy inp) = main_alloy baseline_tco2e inp"

subsection \<open>Section B of the PDF: the dominant source\<close>





subsection \<open>Predicates and inputs the properties speak about\<close>

text \<open>
  A fuel type that spells \<open>diesel\<close> in any mix of capital and small letters: letter
  by letter, the small letter or its capital.
\<close>

definition diesel_ignoring_case :: "string \<Rightarrow> bool" where
  "diesel_ignoring_case s =
     list_all2 (\<lambda>c (l, u). c = l \<or> c = u) s (zip ''diesel'' ''DIESEL'')"

text \<open>The form's number inputs have \<open>min_value\<close> 0: no numeric field is negative.\<close>

fun nonneg_inputs :: "form \<Rightarrow> bool" where
  "nonneg_inputs (Agriculture inp) =
     (0 \<le> area_ha inp \<and> 0 \<le> rice_yield_t inp \<and> 0 \<le> livestock_count inp \<and>
      0 \<le> fert_n_kg inp \<and> 0 \<le> diesel_l inp \<and> 0 \<le> petrol_l inp \<and> 0 \<le> elec_kwh inp)"
| "nonneg_inputs (Alloy inp) =
     (0 \<le> steel_prod_t inp \<and> 0 \<le> elec_kwh_alloy inp \<and>
      0 \<le> diesel_l_alloy inp \<and> 0 \<le> petrol_l_alloy inp)"

text \<open>The alloy scenario of the specification (end-to-end scenario 2).\<close>

definition alloy_scenario :: alloy_inputs where
  "alloy_scenario =
     \<lparr>steel_prod_t = 10, elec_kwh_alloy = 1000, diesel_l_alloy = 0, petrol_l_alloy = 0\<rparr>"



text \<open>A farm with every kind of input, for the instances below.\<close>

definition sample_farm :: agri_inputs where
  "sample_farm =
     \<lparr>area_ha = 2, crop_type = ''Rice'', rice_yield_t = 3, livestock_count = 5,
      fert_n_kg = 100, diesel_l = 50, petrol_l = 0, elec_kwh = 200\<rparr>"

section \<open>Auxiliary facts\<close>

lemmas factor_defs =
  FERT_EF_N2O_N_def N2O_TO_N2O_RATIO_def N2O_GWP_def ELECTRICITY_EF_KG_PER_KWH_def
  DIESEL_EF_KG_PER_L_def PETROL_EF_KG_PER_L_def RICE_AREA_EF_KG_PER_HA_def
  RICE_YIELD_EF_KG_PER_KG_def STEEL_EF_T_PER_TONNE_def LIVESTOCK_EF_KG_PER_HEAD_PER_YEAR_def

lemmas calculator_defs =
  compute_fertilizer_emissions_def compute_electricity_emissions_def
  compute_rice_emissions_def compute_steel_emissions_def compute_livestock_emissions_def

subsection \<open>Lower-casing and the word diesel\<close>

lemma char_lower_diesel_letters:
  "char_lower c = CHR ''d'' \<longleftrightarrow> c = CHR ''d'' \<or> c = CHR ''D''"
  "char_lower c = CHR ''i'' \<longleftrightarrow> c = CHR ''i'' \<or> c = CHR ''I''"
  "char_lower c = CHR ''e'' \<longleftrightarrow> c = CHR ''e'' \<or> c = CHR ''E''"
  "char_lower c = CHR ''s'' \<longleftrightarrow> c = CHR ''s'' \<or> c = CHR ''S''"
  "char_lower c = CHR ''l'' \<longleftrightarrow> c = CHR ''l'' \<or> c = CHR ''L''"
  by (simp_all add: char_lower_def)

lemma lower_eq_diesel: "lower s = ''diesel'' \<longleftrightarrow> diesel_ignoring_case s"
  by (auto simp add: lower_def diesel_ignoring_case_def list_all2_Cons2
      char_lower_diesel_letters)

lemma fuel_of_form [simp]:
  "compute_fuel_emissions litres ''Diesel'' = litres * 2.68"
  "compute_fuel_emissions litres ''Petrol'' = litres * 2.27"
  by (simp_all add: compute_fuel_emissions_def lower_def char_lower_def factor_defs)

subsection \<open>The fields of the report\<close>

lemma total_is_sum:
  "total_em_kg (main_calculations b f) = sum_list (em_values_kg (main_calculations b f))"
  by (cases f) (simp_all add: main_agriculture_def main_alloy_def Let_def)

lemma tonnes_of_total:
  "total_em_t (main_calculations b f) = kg_to_tonnes (total_em_kg (main_calculations b f))"
  by (cases f) (simp_all add: main_agriculture_def main_alloy_def Let_def)

lemma credits_expr:
  "potential_credits_t (main_calculations b f) =
     (if b > 0 then max 0 (b - total_em_t (main_calculations b f)) else 0)"
  by (cases f) (simp_all add: main_agriculture_def main_alloy_def Let_def)

lemma em_values_agriculture:
  "em_values_kg (main_calculations b (Agriculture inp)) =
     [compute_fertilizer_emissions (fert_n_kg inp),
      compute_fuel_emissions (diesel_l inp) ''Diesel'',
      compute_fuel_emissions (petrol_l inp) ''Petrol'',
      compute_electricity_emissions (elec_kwh inp),
      (if crop_type inp = ''Rice''
       then compute_rice_emissions (area_ha inp) (rice_yield_t inp) else 0),
      compute_livestock_emissions (livestock_count inp)]"
  by (simp add: main_agriculture_def Let_def)

lemma em_values_alloy:
  "em_values_kg (main_calculations b (Alloy inp)) =
     [compute_steel_emissions (steel_prod_t inp),
      compute_electricity_emissions (elec_kwh_alloy inp),
      compute_fuel_emissions (diesel_l_alloy inp) ''Diesel'',
      compute_fuel_emissions (petrol_l_alloy inp) ''Petrol'']"
  by (simp add: main_alloy_def Let_def)

lemma sources_agriculture:
  "sources (main_calculations b (Agriculture inp)) =
     [''Synthetic nitrogen fertilizer'', ''Diesel'', ''Petrol'',
      ''Electricity (grid)'', ''Rice paddies'', ''Livestock (enteric methane)'']"
  by (simp add: main_agriculture_def Let_def)

lemma sources_alloy:
  "sources (main_calculations b (Alloy inp)) =
     [''Steel production'', ''Electricity (grid)'', ''Diesel'', ''Petrol'']"
  by (simp add: main_alloy_def Let_def)




subsection \<open>Signs of the calculators\<close>

lemma nonneg_fertilizer: "0 \<le> x \<Longrightarrow> 0 \<le> compute_fertilizer_emissions x"
  by (simp add: compute_fertilizer_emissions_def factor_defs)

lemma nonneg_electricity: "0 \<le> x \<Longrightarrow> 0 \<le> compute_electricity_emissions x"
  by (simp add: compute_electricity_emissions_def factor_defs)

lemma nonneg_fuel: "0 \<le> x \<Longrightarrow> 0 \<le> compute_fuel_emissions x s"
  by (simp add: compute_fuel_emissions_def factor_defs)

lemma nonneg_rice: "0 \<le> x \<Longrightarrow> 0 \<le> y \<Longrightarrow> 0 \<le> compute_rice_emissions x y"
  by (simp add: compute_rice_emissions_def factor_defs)

lemma nonneg_steel: "0 \<le> x \<Longrightarrow> 0 \<le> compute_steel_emissions x"
  by (simp add: compute_steel_emissions_def factor_defs)

lemma nonneg_livestock: "0 \<le> n \<Longrightarrow> 0 \<le> compute_livestock_emissions n"
  by (simp add: compute_livestock_emissions_def factor_defs)

lemmas nonneg_calculators =
  nonneg_fertilizer nonneg_electricity nonneg_fuel nonneg_rice nonneg_steel nonneg_livestock

lemma nonneg_values:
  "nonneg_inputs f \<Longrightarrow> \<forall>v\<in>set (em_values_kg (main_calculations b f)). 0 \<le> v"
  by (cases f) (simp_all add: main_agriculture_def main_alloy_def Let_def nonneg_calculators)

lemma nonneg_totals:
  assumes "nonneg_inputs f"
  shows "0 \<le> total_em_kg (main_calculations b f)"
    and "0 \<le> total_em_t (main_calculations b f)"
proof -
  show kg: "0 \<le> total_em_kg (main_calculations b f)"
    unfolding total_is_sum using nonneg_values [OF assms] by (simp add: sum_list_nonneg)
  then show "0 \<le> total_em_t (main_calculations b f)"
    by (simp add: tonnes_of_total kg_to_tonnes_def)
qed

text \<open>Every non-negative total in tonnes is the total of some form without negative inputs.\<close>

lemma every_total_reachable:
  assumes "0 \<le> t"
  shows "\<exists>f. nonneg_inputs f \<and> total_em_t (main_calculations b f) = t"
proof -
  let ?f = "Alloy \<lparr>steel_prod_t = t / 2.55, elec_kwh_alloy = 0, diesel_l_alloy = 0,
              petrol_l_alloy = 0\<rparr>"
  from assms have "nonneg_inputs ?f" by simp
  moreover have "total_em_t (main_calculations b ?f) = t"
    by (simp add: main_alloy_def Let_def calculator_defs factor_defs kg_to_tonnes_def)
  ultimately show ?thesis by blast
qed

subsection \<open>Rounding to two decimals\<close>









subsection \<open>The scan for the maximum\<close>







section \<open>The claims\<close>

text \<open>
  C1. After a submission the potential credits are \<open>max(0, baseline - total)\<close> when
  the baseline is positive and 0 when it is 0 (the default of the optional field);
  they are never negative. This holds for every baseline and every form, hence for
  every total the form can produce: every total from 0 upwards.
\<close>

theorem potential_credits_formula:
  "potential_credits_t (main_calculations baseline_t f) =
     (if baseline_t > 0
      then max 0 (baseline_t - total_em_t (main_calculations baseline_t f))
      else 0)
   \<and> 0 \<le> potential_credits_t (main_calculations baseline_t f)"
  by (simp add: credits_expr)

text \<open>
  The three instances of the specification: a total of 4 t against a baseline of 10 t
  gives 6 t, a total of 10 t against a baseline of 4 t gives 0, and so does a
  baseline of 0.
\<close>

theorem potential_credits_formula_witness:
  "total_em_t (main_calculations 10 (Alloy \<lparr>steel_prod_t = 0, elec_kwh_alloy = 4515,
       diesel_l_alloy = 0, petrol_l_alloy = 338\<rparr>)) = 4
   \<and> potential_credits_t (main_calculations 10 (Alloy \<lparr>steel_prod_t = 0,
       elec_kwh_alloy = 4515, diesel_l_alloy = 0, petrol_l_alloy = 338\<rparr>)) = 6
   \<and> total_em_t (main_calculations 4 (Alloy \<lparr>steel_prod_t = 0, elec_kwh_alloy = 12990,
       diesel_l_alloy = 0, petrol_l_alloy = 308\<rparr>)) = 10
   \<and> potential_credits_t (main_calculations 4 (Alloy \<lparr>steel_prod_t = 0,
       elec_kwh_alloy = 12990, diesel_l_alloy = 0, petrol_l_alloy = 308\<rparr>)) = 0
   \<and> potential_credits_t (main_calculations 0 (Alloy \<lparr>steel_prod_t = 0,
       elec_kwh_alloy = 12990, diesel_l_alloy = 0, petrol_l_alloy = 308\<rparr>)) = 0"
proof -
  let ?a = "Alloy \<lparr>steel_prod_t = 0, elec_kwh_alloy = 4515, diesel_l_alloy = 0,
              petrol_l_alloy = 338\<rparr>"
  let ?b = "Alloy \<lparr>steel_prod_t = 0, elec_kwh_alloy = 12990, diesel_l_alloy = 0,
              petrol_l_alloy = 308\<rparr>"
  have ta: "total_em_t (main_calculations 10 ?a) = 4"
    by (simp add: main_alloy_def Let_def calculator_defs factor_defs kg_to_tonnes_def)
  have tb: "total_em_t (main_calculations 4 ?b) = 10"
    by (simp add: main_alloy_def Let_def calculator_defs factor_defs kg_to_tonnes_def)
  from potential_credits_formula [of 10 ?a] ta
  have ca: "potential_credits_t (main_calculations 10 ?a) = 6" by simp
  from potential_credits_formula [of 4 ?b] tb
  have cb: "potential_credits_t (main_calculations 4 ?b) = 0" by simp
  from potential_credits_formula [of 0 ?b]
  have cc: "potential_credits_t (main_calculations 0 ?b) = 0" by simp
  from ta tb ca cb cc show ?thesis by blast
qed

text \<open>
  C2. In either sector the total in kilograms is the sum of the per-source values of
  the result sequence, and the total in tonnes is \<open>kg_to_tonnes\<close> of it, that is
  the total in kilograms divided by 1000.
\<close>

theorem totals_are_sum_and_tonnes:
  "total_em_kg (main_calculations baseline_t f)
     = sum_list (em_values_kg (main_calculations baseline_t f))
   \<and> total_em_t (main_calculations baseline_t f)
     = kg_to_tonnes (total_em_kg (main_calculations baseline_t f))
   \<and> kg_to_tonnes (total_em_kg (main_calculations baseline_t f))
     = total_em_kg (main_calculations baseline_t f) / 1000"
  using total_is_sum [of baseline_t f] tonnes_of_total [of baseline_t f]
  by (simp add: kg_to_tonnes_def)

text \<open>
  C3. \<open>compute_fuel_emissions\<close> multiplies the litres by 2.68 exactly when the fuel
  type spells diesel in any mix of cases, and by 2.27 for every other string, among
  them \<open>petrol\<close>, \<open>Petrol\<close>, the empty string and strings it does not know.
\<close>

theorem fuel_factor_selection:
  "compute_fuel_emissions litres fuel_type =
     (if diesel_ignoring_case fuel_type then litres * 2.68 else litres * 2.27)
   \<and> compute_fuel_emissions litres ''diesel'' = litres * 2.68
   \<and> compute_fuel_emissions litres ''Diesel'' = litres * 2.68
   \<and> compute_fuel_emissions litres ''DIESEL'' = litres * 2.68
   \<and> compute_fuel_emissions litres ''petrol'' = litres * 2.27
   \<and> compute_fuel_emissions litres ''Petrol'' = litres * 2.27
   \<and> compute_fuel_emissions litres '''' = litres * 2.27
   \<and> compute_fuel_emissions litres ''kerosene'' = litres * 2.27
   \<and> compute_fuel_emissions litres ''diesel '' = litres * 2.27"
proof -
  have "compute_fuel_emissions litres fuel_type =
     (if diesel_ignoring_case fuel_type then litres * 2.68 else litres * 2.27)"
    by (simp add: compute_fuel_emissions_def lower_eq_diesel factor_defs)
  moreover have "compute_fuel_emissions litres ''diesel'' = litres * 2.68"
    and "compute_fuel_emissions litres ''Diesel'' = litres * 2.68"
    and "compute_fuel_emissions litres ''DIESEL'' = litres * 2.68"
    and "compute_fuel_emissions litres ''petrol'' = litres * 2.27"
    and "compute_fuel_emissions litres ''Petrol'' = litres * 2.27"
    and "compute_fuel_emissions litres '''' = litres * 2.27"
    and "compute_fuel_emissions litres ''kerosene'' = litres * 2.27"
    and "compute_fuel_emissions litres ''diesel '' = litres * 2.27"
    by (simp_all add: compute_fuel_emissions_def lower_def char_lower_def factor_defs)
  ultimately show ?thesis by blast
qed


text \<open>
  C5. \<open>compute_rice_emissions(area_ha, yield_tonnes)\<close> is
  \<open>(area_ha * 7870 + yield_tonnes * 1000 * 0.9) / 2\<close>; in the agriculture report the
  source \<open>Rice paddies\<close> carries this value when the crop type is \<open>Rice\<close> and
  exactly zero for any other crop type.
\<close>

theorem rice_formula_and_source:
  "compute_rice_emissions area yield_tonnes = (area * 7870 + yield_tonnes * 1000 * 0.9) / 2
   \<and> zip (sources (main_calculations baseline_t (Agriculture inp)))
          (em_values_kg (main_calculations baseline_t (Agriculture inp))) ! 4
     = (''Rice paddies'',
        if crop_type inp = ''Rice''
        then compute_rice_emissions (area_ha inp) (rice_yield_t inp) else 0)"
  by (simp add: compute_rice_emissions_def factor_defs main_agriculture_def Let_def)





text \<open>
  C8. On a non-negative quantity every calculator (fertilizer, electricity, fuel with
  any fuel type, rice, steel, livestock) returns a non-negative value; so every
  per-source value of a report built from non-negative inputs is non-negative, and so
  are its total in kilograms and its total in tonnes.
\<close>

theorem calculators_and_totals_nonnegative:
  assumes "0 \<le> x" and "0 \<le> y" and "0 \<le> n" and "nonneg_inputs f"
  shows "0 \<le> compute_fertilizer_emissions x
       \<and> 0 \<le> compute_electricity_emissions x
       \<and> 0 \<le> compute_fuel_emissions x fuel_type
       \<and> 0 \<le> compute_rice_emissions x y
       \<and> 0 \<le> compute_steel_emissions x
       \<and> 0 \<le> compute_livestock_emissions n
       \<and> (\<forall>v\<in>set (em_values_kg (main_calculations baseline_t f)). 0 \<le> v)
       \<and> 0 \<le> total_em_kg (main_calculations baseline_t f)
       \<and> 0 \<le> total_em_t (main_calculations baseline_t f)"
  using assms nonneg_values [of f baseline_t] nonneg_totals [of f baseline_t]
  by (simp add: nonneg_calculators)

theorem calculators_and_totals_nonnegative_witness:
  "(0::real) \<le> 3 \<and> (0::real) \<le> 2 \<and> (0::int) \<le> 5 \<and> nonneg_inputs (Agriculture sample_farm)
   \<and> 0 \<le> compute_fertilizer_emissions 3
   \<and> 0 \<le> compute_electricity_emissions 3
   \<and> 0 \<le> compute_fuel_emissions 3 ''Diesel''
   \<and> 0 \<le> compute_rice_emissions 3 2
   \<and> 0 \<le> compute_steel_emissions 3
   \<and> 0 \<le> compute_livestock_emissions 5
   \<and> 0 \<le> total_em_kg (main_calculations 0 (Agriculture sample_farm))
   \<and> 0 \<le> total_em_t (main_calculations 0 (Agriculture sample_farm))"
proof -
  have h: "(0::real) \<le> 3" "(0::real) \<le> 2" "(0::int) \<le> 5"
    "nonneg_inputs (Agriculture sample_farm)"
    by (simp_all add: sample_farm_def)
  from calculators_and_totals_nonnegative [OF h, of "''Diesel''" 0] h
  show ?thesis by blast
qed

text \<open>
  C9. When the baseline and the total emissions are non-negative, the potential
  credits of the report do not exceed the baseline.
\<close>

theorem potential_credits_at_most_baseline:
  assumes "0 \<le> baseline_t" and "0 \<le> total_em_t (main_calculations baseline_t f)"
  shows "potential_credits_t (main_calculations baseline_t f) \<le> baseline_t"
  using assms by (simp add: credits_expr)

theorem potential_credits_at_most_baseline_witness:
  "(0::real) \<le> 30
   \<and> 0 \<le> total_em_t (main_calculations 30 (Alloy alloy_scenario))
   \<and> potential_credits_t (main_calculations 30 (Alloy alloy_scenario)) \<le> 30"
proof -
  have b: "(0::real) \<le> 30" by simp
  have t: "0 \<le> total_em_t (main_calculations 30 (Alloy alloy_scenario))"
    by (simp add: alloy_scenario_def main_alloy_def Let_def calculator_defs factor_defs
        kg_to_tonnes_def)
  from potential_credits_at_most_baseline [OF b t] b t show ?thesis by blast
qed



end
